theory Spec2Isabelle
  imports Main
begin

section \<open>The view manager of the quiz application (js/view-manager.js)\<close>

text \<open>
  A shallow embedding of the class \<^verbatim>\<open>ViewManager\<close>. The object's fields and the part of
  the document it touches are one record that every method takes and returns. An exception
  is the left summand of a method's result, so a \<^verbatim>\<open>try/catch\<close> is a case distinction on it.
  Everything the class does to the outside (network fetches, console reports, calls of its
  collaborators) is appended to a trace.
\<close>

subsection \<open>Data\<close>

type_synonym markup = string

text \<open>The calls the class makes on objects it does not define.\<close>

datatype call =
    UpdateQuestionDisplay
  | CalculateResults
  | InitializeReview string
  | NewReviewAnswersManager
  | GetTestResults
  | GetQuestions
  | Initialize string
  | SetReviewCurrentQuestion int
  | LoadReviewQuestion int
  | CloseSidebar
  | InitializeComponent string string
  | CreateFallbackView string

datatype error =
    FetchFailure string nat
  | NetworkError
  | TypeError string
  | Thrown call

datatype event =
    Call call
  | Fetch string
  | ConsoleError string

text \<open>
  A control inside a view (the back button, the sidebar list): its binding flag
  (\<^verbatim>\<open>dataset.bound\<close>, \<^verbatim>\<open>dataset.delegationBound\<close>) and the number of click listeners on it.
\<close>

record control =
  bound :: bool
  listeners :: nat

text \<open>
  An element of the document: its \<^verbatim>\<open>id\<close> (the empty string when it has none), whether its
  class list holds \<^verbatim>\<open>active\<close>, and the two controls \<^verbatim>\<open>querySelector\<close> looks for.
\<close>

record element =
  el_id :: string
  active :: bool
  backBtn :: "control option"
  sidebarList :: "control option"

text \<open>
  A property of the test manager that the class calls as a method: absent, present but not
  a function, or a function.
\<close>

datatype slot = Undefined | NotFunction | Callable

record test_collaborator =
  updateQuestionDisplay :: slot
  calculateResults :: slot
  initializeReview :: slot

text \<open>\<^verbatim>\<open>window.app\<close>, when it is defined: which managers it holds.\<close>

record app =
  app_stateManager :: bool
  app_questionManager :: bool

text \<open>What \<^verbatim>\<open>fetch\<close> gives: a response (\<^verbatim>\<open>ok\<close>, \<^verbatim>\<open>status\<close>, body text) or a rejection.\<close>

datatype response = Response bool nat markup | Rejected

text \<open>
  The fields of the object (\<^verbatim>\<open>currentView\<close>, \<^verbatim>\<open>componentCache\<close>, the three managers as
  present or \<^verbatim>\<open>null\<close>, \<^verbatim>\<open>reviewManager\<close> as constructed or \<^verbatim>\<open>null\<close>), the document, the
  views whose reload \<^verbatim>\<open>showView\<close> has started and not yet continued, and the trace.

  The document is the list of the elements that \<^verbatim>\<open>getElementById\<close> can find, in document
  order, and whether \<^verbatim>\<open>#app-container\<close> exists. The elements are those mounted in the
  container or written in the page beside them; what lies inside a mounted element, other
  than its two controls, is not looked at. The cache is the object's own entries: the
  properties every object inherits are not entries of it.
\<close>

record state =
  currentView :: string
  componentCache :: "string \<rightharpoonup> markup"
  stateManager :: bool
  questionManager :: bool
  testManager :: "test_collaborator option"
  reviewManager :: bool
  dom :: "element list"
  container :: bool
  pending :: "string list"
  trace :: "event list"

text \<open>
  The surroundings of a run. \<open>fetch env n url\<close> is the outcome of the fetch of \<open>url\<close> issued
  after \<open>n\<close> earlier fetches; \<open>parse env html\<close> is the first element child of a \<^verbatim>\<open>div\<close>
  whose \<^verbatim>\<open>innerHTML\<close> is \<open>html\<close>; \<open>throws env c\<close> says whether the call \<open>c\<close> throws. A call
  of a collaborator is recorded and returns or throws: what the collaborator does inside is
  not part of this class, and it is taken not to call back into the object nor to touch the
  elements above.

  The class calls two methods it does not define, \<^verbatim>\<open>initializeComponent\<close> and
  \<^verbatim>\<open>createFallbackView\<close>. The first is a call like those of the collaborators: it is
  recorded in the trace and throws when \<open>throws env\<close> says so (as it does when the method is
  missing). The second is the parameter \<open>createFallbackView env\<close>: it throws, or it returns
  markup and may mount an element.
\<close>

record env =
  fetch :: "nat \<Rightarrow> string \<Rightarrow> response"
  parse :: "markup \<Rightarrow> element option"
  throws :: "call \<Rightarrow> bool"
  createFallbackView :: "string \<Rightarrow> error + markup \<times> element option"
  window_app :: "app option"

type_synonym 'a js = "state \<Rightarrow> (error + 'a) \<times> state"

definition views :: "string list" where
  "views = [''landing'', ''test'', ''result'', ''review-answers'']"

text \<open>
  The constructor, with each manager already resolved from the argument or from
  \<^verbatim>\<open>window\<close>, over a given document.
\<close>

definition constructor ::
  "bool \<Rightarrow> bool \<Rightarrow> test_collaborator option \<Rightarrow> element list \<Rightarrow> bool \<Rightarrow> state" where
  "constructor sm qm tm d c =
     \<lparr>currentView = ''landing'', componentCache = Map.empty, stateManager = sm,
      questionManager = qm, testManager = tm, reviewManager = False, dom = d,
      container = c, pending = [], trace = []\<rparr>"

subsection \<open>Control flow\<close>

definition return_js :: "'a \<Rightarrow> 'a js" where
  "return_js x s = (Inr x, s)"

definition throw_js :: "error \<Rightarrow> 'a js" where
  "throw_js e s = (Inl e, s)"

definition bind_js :: "'a js \<Rightarrow> ('a \<Rightarrow> 'b js) \<Rightarrow> 'b js" where
  "bind_js m f s = (case m s of (Inl e, s') \<Rightarrow> (Inl e, s') | (Inr x, s') \<Rightarrow> f x s')"

definition seq_js :: "unit js \<Rightarrow> 'b js \<Rightarrow> 'b js" where
  "seq_js m n = bind_js m (\<lambda>_. n)"

definition log :: "event \<Rightarrow> state \<Rightarrow> state" where
  "log ev s = s\<lparr>trace := trace s @ [ev]\<rparr>"

text \<open>\<^verbatim>\<open>try { body } catch (error) { console.error(msg, error) }\<close>\<close>

definition try_catch :: "unit js \<Rightarrow> string \<Rightarrow> unit js" where
  "try_catch body msg s =
     (case body s of
        (Inr x, s') \<Rightarrow> (Inr x, s')
      | (Inl e, s') \<Rightarrow> (Inr (), log (ConsoleError msg) s'))"

text \<open>A call of a collaborator: recorded, and it throws or returns.\<close>

definition invoke :: "env \<Rightarrow> call \<Rightarrow> unit js" where
  "invoke env c s = (if throws env c then Inl (Thrown c) else Inr (), log (Call c) s)"

text \<open>\<^verbatim>\<open>obj.method?.()\<close>: skipped when the property is absent, a type error when it is not a function.\<close>

definition optional_call :: "env \<Rightarrow> slot \<Rightarrow> call \<Rightarrow> unit js" where
  "optional_call env sl c =
     (case sl of
        Undefined \<Rightarrow> return_js ()
      | NotFunction \<Rightarrow> throw_js (TypeError ''not a function'')
      | Callable \<Rightarrow> invoke env c)"

subsection \<open>The document\<close>

text \<open>\<^verbatim>\<open>document.getElementById\<close>: the first element with the id; no element has the empty id.\<close>

definition getElementById :: "string \<Rightarrow> element list \<Rightarrow> element option" where
  "getElementById i d = (if i = [] then None else find (\<lambda>e. el_id e = i) d)"

fun update_first :: "('a \<Rightarrow> bool) \<Rightarrow> ('a \<Rightarrow> 'a) \<Rightarrow> 'a list \<Rightarrow> 'a list" where
  "update_first p f [] = []"
| "update_first p f (x # xs) = (if p x then f x # xs else x # update_first p f xs)"

text \<open>\<^verbatim>\<open>classList.remove('active')\<close> or \<^verbatim>\<open>add\<close> on the element \<^verbatim>\<open>getElementById\<close> finds, if any.\<close>

definition set_active :: "string \<Rightarrow> bool \<Rightarrow> element list \<Rightarrow> element list" where
  "set_active i b d =
     (if i = [] then d else update_first (\<lambda>e. el_id e = i) (\<lambda>e. e\<lparr>active := b\<rparr>) d)"

text \<open>
  Lines 73 to 78: the new element replaces the element that has its id, or is appended to
  the container.
\<close>

definition mount :: "element \<Rightarrow> element list \<Rightarrow> element list" where
  "mount e d =
     (case getElementById (el_id e) d of
        Some _ \<Rightarrow> update_first (\<lambda>x. el_id x = el_id e) (\<lambda>_. e) d
      | None \<Rightarrow> d @ [e])"

definition view_id :: "string \<Rightarrow> string" where
  "view_id v = v @ ''-view''"

text \<open>
  Whether the element with an id carries the marker, whether the element of a view does,
  and the views that do.
\<close>

definition marked :: "string \<Rightarrow> element list \<Rightarrow> bool" where
  "marked i d = (case getElementById i d of Some e \<Rightarrow> active e | None \<Rightarrow> False)"

definition carries_active :: "string \<Rightarrow> state \<Rightarrow> bool" where
  "carries_active v s = marked (view_id v) (dom s)"

definition active_views :: "state \<Rightarrow> string list" where
  "active_views s = filter (\<lambda>v. carries_active v s) views"

subsection \<open>initializeReviewManager (lines 134 to 151)\<close>

text \<open>\<^verbatim>\<open>this.x || window.app.x\<close>: reading a property of an undefined \<^verbatim>\<open>window.app\<close> throws.\<close>

definition or_window_app :: "bool \<Rightarrow> app option \<Rightarrow> (app \<Rightarrow> bool) \<Rightarrow> error + bool" where
  "or_window_app own w sel =
     (if own then Inr True
      else case w of
             None \<Rightarrow> Inl (TypeError ''window.app is undefined'')
           | Some a \<Rightarrow> Inr (sel a))"

definition initializeReviewManager_body :: "env \<Rightarrow> element \<Rightarrow> unit js" where
  "initializeReviewManager_body env el s =
     (case or_window_app (stateManager s) (window_app env) app_stateManager of
        Inl e \<Rightarrow> (Inl e, s)
      | Inr sm \<Rightarrow>
          (case or_window_app (questionManager s) (window_app env) app_questionManager of
             Inl e \<Rightarrow> (Inl e, s)
           | Inr qm \<Rightarrow>
               if \<not> sm \<or> \<not> qm then (Inr (), s)
               else
                 seq_js
                   (if reviewManager s then return_js ()
                    else seq_js (invoke env NewReviewAnswersManager)
                           (\<lambda>t. (Inr (), t\<lparr>reviewManager := True\<rparr>)))
                   (seq_js (invoke env GetTestResults)
                      (seq_js (invoke env GetQuestions)
                         (invoke env (Initialize (el_id el))))) s))"

definition initializeReviewManager :: "env \<Rightarrow> element \<Rightarrow> unit js" where
  "initializeReviewManager env el =
     try_catch (initializeReviewManager_body env el) ''Error initializing review manager:''"

subsection \<open>onViewActivated (lines 187 to 211)\<close>

definition onViewActivated_body :: "env \<Rightarrow> string \<Rightarrow> element \<Rightarrow> unit js" where
  "onViewActivated_body env viewName el s =
     (if viewName = ''test'' then
        (case testManager s of
           Some tm \<Rightarrow> optional_call env (updateQuestionDisplay tm) UpdateQuestionDisplay s
         | None \<Rightarrow> (Inr (), s))
      else if viewName = ''result'' then
        (case testManager s of
           Some tm \<Rightarrow> optional_call env (calculateResults tm) CalculateResults s
         | None \<Rightarrow> (Inr (), s))
      else if viewName = ''review-answers'' then
        (case testManager s of
           Some tm \<Rightarrow>
             if initializeReview tm = Callable then invoke env (InitializeReview (el_id el)) s
             else initializeReviewManager env el s
         | None \<Rightarrow> initializeReviewManager env el s)
      else (Inr (), s))"

definition onViewActivated :: "env \<Rightarrow> string \<Rightarrow> element \<Rightarrow> unit js" where
  "onViewActivated env viewName el =
     try_catch (onViewActivated_body env viewName el) (''Error in view activation for '' @ viewName)"

subsection \<open>loadComponent (lines 46 to 95)\<close>

text \<open>\<^verbatim>\<open>String.prototype.includes\<close>\<close>

fun starts_with :: "string \<Rightarrow> string \<Rightarrow> bool" where
  "starts_with xs [] = True"
| "starts_with [] (c # cs) = False"
| "starts_with (x # xs) (c # cs) = (x = c \<and> starts_with xs cs)"

fun js_includes :: "string \<Rightarrow> string \<Rightarrow> bool" where
  "js_includes [] sub = (sub = [])"
| "js_includes (x # xs) sub = (starts_with (x # xs) sub \<or> js_includes xs sub)"

definition component_url :: "string \<Rightarrow> string" where
  "component_url name = ''components/'' @ name @ ''.html''"

fun is_fetch :: "event \<Rightarrow> bool" where
  "is_fetch (Fetch u) = True"
| "is_fetch ev = False"

definition fetch_count :: "state \<Rightarrow> nat" where
  "fetch_count s = length (filter is_fetch (trace s))"

text \<open>
  \<^verbatim>\<open>if (this.componentCache[componentName])\<close>: the entry counts only when it is truthy, and
  the empty string is not.
\<close>

definition cached :: "state \<Rightarrow> string \<Rightarrow> markup option" where
  "cached s name =
     (case componentCache s name of
        Some h \<Rightarrow> if h = [] then None else Some h
      | None \<Rightarrow> None)"

text \<open>Lines 61 to 83: the fragment is mounted and the initialization hook called.\<close>

definition mount_component :: "env \<Rightarrow> string \<Rightarrow> markup \<Rightarrow> unit js" where
  "mount_component env name html s =
     (if js_includes name ''view'' \<or> name = ''review-panel'' then
        if container s then
          (case parse env html of
             None \<Rightarrow> (Inr (), s)
           | Some e0 \<Rightarrow>
               let e = (if js_includes name ''view'' \<and> el_id e0 = [] then e0\<lparr>el_id := name\<rparr> else e0)
               in invoke env (InitializeComponent name (el_id e)) (s\<lparr>dom := mount e (dom s)\<rparr>))
        else (Inr (), s)
      else (Inr (), s))"

text \<open>Lines 52 to 85, the body of the \<^verbatim>\<open>try\<close>.\<close>

definition loadComponent_try :: "env \<Rightarrow> string \<Rightarrow> markup js" where
  "loadComponent_try env name s =
     (let s1 = log (Fetch (component_url name)) s in
      case fetch env (fetch_count s) (component_url name) of
        Rejected \<Rightarrow> (Inl NetworkError, s1)
      | Response ok status html \<Rightarrow>
          if \<not> ok then (Inl (FetchFailure name status), s1)
          else bind_js (mount_component env name html) (\<lambda>_. return_js html)
                 (s1\<lparr>componentCache := (componentCache s1)(name \<mapsto> html)\<rparr>))"

text \<open>
  \<^verbatim>\<open>return this.createFallbackView(componentName)\<close>: the call is recorded; what it gives is
  the parameter's outcome, and the element it mounts, if any, enters the document as a
  fragment's element does.
\<close>

definition fallback :: "env \<Rightarrow> string \<Rightarrow> markup js" where
  "fallback env name s =
     (let s1 = log (Call (CreateFallbackView name)) s in
      case createFallbackView env name of
        Inl e \<Rightarrow> (Inl e, s1)
      | Inr (h, None) \<Rightarrow> (Inr h, s1)
      | Inr (h, Some e) \<Rightarrow> (Inr h, s1\<lparr>dom := mount e (dom s1)\<rparr>))"

text \<open>
  The \<^verbatim>\<open>await\<close>s of this \<^verbatim>\<open>async\<close> method are run to their end in one step: no other method
  of the object runs between the fetch and the mount.
\<close>

definition loadComponent :: "env \<Rightarrow> string \<Rightarrow> markup js" where
  "loadComponent env name s =
     (case cached s name of
        Some h \<Rightarrow> (Inr h, s)
      | None \<Rightarrow>
          (case loadComponent_try env name s of
             (Inr h, s1) \<Rightarrow> (Inr h, s1)
           | (Inl err, s1) \<Rightarrow>
               let s2 = log (ConsoleError (''Error loading component '' @ name @ '':'')) s1 in
               if js_includes name ''view'' then fallback env name s2
               else (Inl err, s2)))"

text \<open>A minimal view element: the given id, no marker, no controls.\<close>

definition placeholder :: "string \<Rightarrow> element" where
  "placeholder name = \<lparr>el_id = name, active = False, backBtn = None, sidebarList = None\<rparr>"

text \<open>
  Modelled from the spec: \<^verbatim>\<open>createFallbackView\<close>, which \<^verbatim>\<open>loadComponent\<close> calls and the
  source does not define. The spec asks of it that it "always returns a mountable,
  identified element even when the network fails", and that after a failed fetch
  "load/mount still yields a mounted element with identifier review-answers-view (via
  fallback)": it never throws, and it mounts a placeholder whose id is the component's name.
\<close>

definition createFallbackView_spec :: "string \<Rightarrow> error + markup \<times> element option" where
  "createFallbackView_spec name = Inr (''placeholder '' @ name, Some (placeholder name))"

subsection \<open>loadAllComponents (lines 28 to 43)\<close>





subsection \<open>showView (lines 154 to 185)\<close>

text \<open>Lines 156 to 161.\<close>

definition clear_markers :: "element list \<Rightarrow> element list" where
  "clear_markers d = foldl (\<lambda>acc v. set_active (view_id v) False acc) d views"

text \<open>
  The method returns before the promise of line 171 settles: the miss branch reports,
  and leaves the view's name among the pending reloads.
\<close>

definition showView_body :: "env \<Rightarrow> string \<Rightarrow> unit js" where
  "showView_body env viewName s =
     (let s1 = s\<lparr>dom := clear_markers (dom s)\<rparr> in
      case getElementById (view_id viewName) (dom s1) of
        Some el \<Rightarrow>
          onViewActivated env viewName (el\<lparr>active := True\<rparr>)
            (s1\<lparr>dom := set_active (view_id viewName) True (dom s1), currentView := viewName\<rparr>)
      | None \<Rightarrow>
          (Inr (), (log (ConsoleError (''View '' @ viewName @ '' not found in DOM'')) s1)
                     \<lparr>pending := pending s1 @ [viewName]\<rparr>))"

definition showView :: "env \<Rightarrow> string \<Rightarrow> unit js" where
  "showView env viewName = try_catch (showView_body env viewName) ''Show view error:''"

text \<open>
  Lines 171 to 180, the promise chain of the miss branch, run when the reload is taken up:
  the load with its fetch, the \<^verbatim>\<open>then\<close> callback, and the \<^verbatim>\<open>catch\<close> that reports a
  rejection of either. Other methods may have run on the object since \<^verbatim>\<open>showView\<close>
  returned: the state it starts from is any state.
\<close>

definition showView_then :: "env \<Rightarrow> string \<Rightarrow> state \<Rightarrow> state" where
  "showView_then env viewName s =
     (case loadComponent env (view_id viewName) s of
        (Inr h, s1) \<Rightarrow>
          (case getElementById (view_id viewName) (dom s1) of
             Some el \<Rightarrow>
               (case onViewActivated env viewName (el\<lparr>active := True\<rparr>)
                       (s1\<lparr>dom := set_active (view_id viewName) True (dom s1),
                           currentView := viewName\<rparr>) of
                  (Inr u, s2) \<Rightarrow> s2
                | (Inl e, s2) \<Rightarrow>
                    log (ConsoleError (''Failed to reload component '' @ view_id viewName @ '':'')) s2)
           | None \<Rightarrow> s1)
      | (Inl e, s1) \<Rightarrow>
          log (ConsoleError (''Failed to reload component '' @ view_id viewName @ '':'')) s1)"

text \<open>The pending reloads run, oldest first; none of them starts another.\<close>

definition settle :: "env \<Rightarrow> state \<Rightarrow> state" where
  "settle env s = foldl (\<lambda>t v. showView_then env v t) (s\<lparr>pending := []\<rparr>) (pending s)"

text \<open>A call of \<^verbatim>\<open>showView\<close> and its reload, with nothing else in between.\<close>

definition activate :: "env \<Rightarrow> string \<Rightarrow> state \<Rightarrow> state" where
  "activate env viewName s = settle env (snd (showView env viewName s))"

subsection \<open>init (lines 17 to 25)\<close>


subsection \<open>initializeReviewAnswersView (lines 98 to 131)\<close>




text \<open>
  The listener of lines 110 to 122. A node of the document has an identity and a tag; the
  click is given by its target followed by the target's ancestors, innermost first, and the
  list by the identities of its children in order.
\<close>

record node =
  nid :: nat
  tag :: string

definition closest_li :: "node list \<Rightarrow> node option" where
  "closest_li path = find (\<lambda>n. tag n = ''li'') path"

fun indexOf :: "nat list \<Rightarrow> nat \<Rightarrow> int" where
  "indexOf [] x = - 1"
| "indexOf (y # ys) x =
     (if y = x then 0 else (let i = indexOf ys x in if i < 0 then - 1 else i + 1))"

text \<open>\<^verbatim>\<open>Number.isNaN\<close> of an integer.\<close>

definition isNaN :: "int \<Rightarrow> bool" where
  "isNaN i = False"

definition sidebar_click :: "env \<Rightarrow> nat list \<Rightarrow> node list \<Rightarrow> unit js" where
  "sidebar_click env children path s =
     (case closest_li path of
        None \<Rightarrow> (Inr (), s)
      | Some btn \<Rightarrow>
          let idx = indexOf children (nid btn) in
          if \<not> isNaN idx then
            seq_js
              (if stateManager s then invoke env (SetReviewCurrentQuestion idx)
               else throw_js (TypeError ''this.stateManager is null''))
              (seq_js
                 (if reviewManager s then invoke env (LoadReviewQuestion idx) else return_js ())
                 (if reviewManager s then invoke env CloseSidebar
                  else throw_js (TypeError ''this.reviewManager is null''))) s
          else (Inr (), s))"

subsection \<open>Observations on a run\<close>

text \<open>The calls recorded in a trace, in order.\<close>

fun calls :: "event list \<Rightarrow> call list" where
  "calls [] = []"
| "calls (Call c # evs) = c # calls evs"
| "calls (ev # evs) = calls evs"

text \<open>A method of the test manager as \<^verbatim>\<open>onViewActivated\<close> sees it: absent when the manager is.\<close>

definition method_of :: "(test_collaborator \<Rightarrow> slot) \<Rightarrow> state \<Rightarrow> slot" where
  "method_of sel s = (case testManager s of None \<Rightarrow> Undefined | Some tm \<Rightarrow> sel tm)"


text \<open>A fetch fails when it is rejected or its response is not \<^verbatim>\<open>ok\<close>.\<close>

definition fetch_fails :: "response \<Rightarrow> bool" where
  "fetch_fails r = (case r of Rejected \<Rightarrow> True | Response ok st h \<Rightarrow> \<not> ok)"




subsection \<open>Concrete documents and surroundings\<close>

definition plain_element :: "string \<Rightarrow> bool \<Rightarrow> element" where
  "plain_element i a = \<lparr>el_id = i, active = a, backBtn = None, sidebarList = None\<rparr>"

text \<open>
  Every fetch succeeds with the url as its text, every fragment is one element without an
  id, no call throws, the fallback is the one modelled from the spec.
\<close>

definition ex_env :: env where
  "ex_env =
     \<lparr>fetch = (\<lambda>n u. Response True 200 u), parse = (\<lambda>h. Some (plain_element [] False)),
      throws = (\<lambda>c. False), createFallbackView = createFallbackView_spec, window_app = None\<rparr>"

definition ex_tm :: test_collaborator where
  "ex_tm =
     \<lparr>updateQuestionDisplay = Callable, calculateResults = Callable, initializeReview = Callable\<rparr>"

text \<open>A document that holds the landing view only, marked active.\<close>

definition ex_doc :: state where
  "ex_doc = constructor True True None [plain_element ''landing-view'' True] True"

text \<open>
  Two clicks on a list whose children are the nodes 10 and 11: on a \<^verbatim>\<open>span\<close> in the second
  item, and on a \<^verbatim>\<open>span\<close> in an \<^verbatim>\<open>li\<close> of a list nested in the second item.
\<close>

definition ex_path_item :: "node list" where
  "ex_path_item =
     [\<lparr>nid = 20, tag = ''span''\<rparr>, \<lparr>nid = 11, tag = ''li''\<rparr>, \<lparr>nid = 1, tag = ''ul''\<rparr>]"

definition ex_path_nested :: "node list" where
  "ex_path_nested =
     [\<lparr>nid = 20, tag = ''span''\<rparr>, \<lparr>nid = 21, tag = ''li''\<rparr>, \<lparr>nid = 22, tag = ''ul''\<rparr>,
      \<lparr>nid = 11, tag = ''li''\<rparr>, \<lparr>nid = 1, tag = ''ul''\<rparr>]"



text \<open>Every fetch is answered with status 404.\<close>

definition ex_env_down :: env where
  "ex_env_down = ex_env\<lparr>fetch := (\<lambda>n u. Response False 404 [])\<rparr>"




section \<open>Properties\<close>

subsection \<open>Traces and control flow\<close>

lemma calls_append: "calls (xs @ ys) = calls xs @ calls ys"
  by (induction xs rule: calls.induct) simp_all

lemma invoke_calls:
  "calls (trace (snd (invoke env c s))) = calls (trace s) @ [c]"
  by (simp add: invoke_def log_def calls_append)

lemma try_catch_fst: "fst (try_catch body msg s) = Inr ()"
  by (simp add: try_catch_def split: prod.splits sum.splits)

lemma try_catch_calls:
  "calls (trace (snd (try_catch body msg s))) = calls (trace (snd (body s)))"
  by (simp add: try_catch_def log_def calls_append split: prod.splits sum.splits)

lemma try_catch_Inr: "fst (body s) = Inr () \<Longrightarrow> try_catch body msg s = body s"
  by (cases "body s") (simp add: try_catch_def split: sum.splits)

lemma initializeReviewManager_fst: "fst (initializeReviewManager env el s) = Inr ()"
  by (simp add: initializeReviewManager_def try_catch_fst)

subsection \<open>The document\<close>

lemma find_set_active_other:
  "i \<noteq> j \<Longrightarrow>
   find (\<lambda>e. el_id e = j) (update_first (\<lambda>e. el_id e = i) (\<lambda>e. e\<lparr>active := b\<rparr>) d) =
   find (\<lambda>e. el_id e = j) d"
  by (induction d) auto

lemma find_set_active_same:
  "find (\<lambda>e. el_id e = j) (update_first (\<lambda>e. el_id e = j) (\<lambda>e. e\<lparr>active := b\<rparr>) d) =
   map_option (\<lambda>e. e\<lparr>active := b\<rparr>) (find (\<lambda>e. el_id e = j) d)"
  by (induction d) auto

lemma getElementById_set_active:
  "getElementById j (set_active i b d) =
     (if i = j then map_option (\<lambda>e. e\<lparr>active := b\<rparr>) (getElementById j d)
      else getElementById j d)"
  by (simp add: getElementById_def set_active_def find_set_active_same find_set_active_other)

lemma find_update_first_const:
  "p e \<Longrightarrow> find p xs \<noteq> None \<Longrightarrow> find p (update_first p (\<lambda>_. e) xs) = Some e"
  by (induction xs) auto

lemma find_update_first_const_other:
  "\<not> q e \<Longrightarrow> (\<And>x. p x \<Longrightarrow> \<not> q x) \<Longrightarrow> find q (update_first p (\<lambda>_. e) xs) = find q xs"
  by (induction xs) auto

lemma find_append_None: "find p xs = None \<Longrightarrow> find p (xs @ ys) = find p ys"
  by (induction xs) auto

lemma find_append_Some: "find p xs = Some x \<Longrightarrow> find p (xs @ ys) = Some x"
  by (induction xs) auto

text \<open>After a mount the element with the mounted id is the mounted one; no other id moves.\<close>

lemma getElementById_mount:
  "getElementById j (mount e d) =
     (if j \<noteq> [] \<and> el_id e = j then Some e else getElementById j d)"
proof (cases "getElementById (el_id e) d")
  case None
  show ?thesis
  proof (cases "el_id e = j")
    case True
    with None show ?thesis
      by (auto simp: mount_def getElementById_def find_append_None split: if_splits)
  next
    case False
    with None show ?thesis
      by (cases "find (\<lambda>x. el_id x = j) d")
         (auto simp: mount_def getElementById_def find_append_None find_append_Some)
  qed
next
  case (Some a)
  then have ne: "el_id e \<noteq> []" "find (\<lambda>x. el_id x = el_id e) d \<noteq> None"
    by (auto simp: getElementById_def split: if_splits)
  show ?thesis
  proof (cases "el_id e = j")
    case True
    with Some ne show ?thesis
      using find_update_first_const[of "\<lambda>x. el_id x = el_id e" e d]
      by (auto simp: mount_def getElementById_def)
  next
    case False
    with Some show ?thesis
      using find_update_first_const_other[of "\<lambda>x. el_id x = j" e "\<lambda>x. el_id x = el_id e" d]
      by (auto simp: mount_def getElementById_def)
  qed
qed

lemma getElementById_clear_fold:
  "getElementById j (foldl (\<lambda>acc v. set_active (view_id v) False acc) d vs) =
     (if j \<in> view_id ` set vs then map_option (\<lambda>e. e\<lparr>active := False\<rparr>) (getElementById j d)
      else getElementById j d)"
proof (induction vs arbitrary: d)
  case Nil
  then show ?case by simp
next
  case (Cons v vs)
  show ?case
    by (simp add: Cons.IH getElementById_set_active option.map_comp comp_def)
qed

lemma getElementById_clear_markers:
  "getElementById j (clear_markers d) =
     (if j \<in> view_id ` set views then map_option (\<lambda>e. e\<lparr>active := False\<rparr>) (getElementById j d)
      else getElementById j d)"
  by (simp add: clear_markers_def getElementById_clear_fold)

lemma marked_set_active:
  "marked j (set_active i b d) = (if i = j then getElementById j d \<noteq> None \<and> b else marked j d)"
  by (auto simp: marked_def getElementById_set_active split: option.splits)

lemma marked_clear_markers:
  "marked j (clear_markers d) = (j \<notin> view_id ` set views \<and> marked j d)"
  by (auto simp: marked_def getElementById_clear_markers split: option.splits)


lemma view_id_inj: "view_id v = view_id w \<longleftrightarrow> v = w"
  by (simp add: view_id_def)

lemma view_id_nonempty: "view_id v \<noteq> []"
  by (simp add: view_id_def)

lemma js_includes_append: "js_includes ys sub \<Longrightarrow> js_includes (xs @ ys) sub"
  by (induction xs) auto

lemma view_id_includes: "js_includes (view_id v) ''view''"
  unfolding view_id_def by (rule js_includes_append) simp

lemma distinct_views: "distinct views"
  by (simp add: views_def)

lemma filter_eq_single: "distinct xs \<Longrightarrow> v \<in> set xs \<Longrightarrow> filter (\<lambda>w. w = v) xs = [v]"
  by (induction xs) (auto simp: filter_empty_conv)

subsection \<open>What the dispatcher leaves alone\<close>

lemma initializeReviewManager_frame:
  "dom (snd (initializeReviewManager env el s)) = dom s \<and>
   currentView (snd (initializeReviewManager env el s)) = currentView s \<and>
   pending (snd (initializeReviewManager env el s)) = pending s \<and>
   componentCache (snd (initializeReviewManager env el s)) = componentCache s \<and>
   container (snd (initializeReviewManager env el s)) = container s \<and>
   fetch_count (snd (initializeReviewManager env el s)) = fetch_count s"
  by (simp add: initializeReviewManager_def try_catch_def initializeReviewManager_body_def
      seq_js_def bind_js_def invoke_def return_js_def log_def fetch_count_def
      split: sum.splits prod.splits option.splits)

lemma onViewActivated_frame:
  "dom (snd (onViewActivated env v el s)) = dom s \<and>
   currentView (snd (onViewActivated env v el s)) = currentView s \<and>
   pending (snd (onViewActivated env v el s)) = pending s \<and>
   componentCache (snd (onViewActivated env v el s)) = componentCache s \<and>
   container (snd (onViewActivated env v el s)) = container s \<and>
   fetch_count (snd (onViewActivated env v el s)) = fetch_count s"
  using initializeReviewManager_frame[of env el s]
  by (auto simp: onViewActivated_def try_catch_def onViewActivated_body_def optional_call_def
      invoke_def return_js_def throw_js_def log_def fetch_count_def
      split: sum.splits prod.splits option.splits slot.splits)

lemma onViewActivated_fst: "fst (onViewActivated env v el s) = Inr ()"
  by (simp add: onViewActivated_def try_catch_fst)

subsection \<open>Loading and showing\<close>

lemma fetch_count_log:
  "fetch_count (log ev s) = (if is_fetch ev then Suc (fetch_count s) else fetch_count s)"
  by (simp add: fetch_count_def log_def)





lemma load_failed_fetch:
  assumes "cached s name = None"
    and "fetch_fails (fetch env (fetch_count s) (component_url name))"
    and "js_includes name ''view''"
  shows "loadComponent env name s =
     fallback env name (log (ConsoleError (''Error loading component '' @ name @ '':''))
        (log (Fetch (component_url name)) s))"
  using assms
  by (simp add: loadComponent_def loadComponent_try_def fetch_fails_def Let_def split: response.splits)

lemma fallback_spec:
  "createFallbackView env = createFallbackView_spec \<Longrightarrow>
   fallback env name s = (Inr (''placeholder '' @ name),
      (log (Call (CreateFallbackView name)) s)\<lparr>dom := mount (placeholder name) (dom s)\<rparr>)"
  by (simp add: fallback_def createFallbackView_spec_def Let_def log_def)

lemma showView_hit:
  assumes "getElementById (view_id v) (dom s) = Some e0"
  shows "showView env v s =
     onViewActivated env v (e0\<lparr>active := True\<rparr>)
       (s\<lparr>dom := set_active (view_id v) True (clear_markers (dom s)), currentView := v\<rparr>)"
proof -
  have "getElementById (view_id v) (clear_markers (dom s)) \<noteq> None"
    using assms by (simp add: getElementById_clear_markers)
  then obtain e1 where e1: "getElementById (view_id v) (clear_markers (dom s)) = Some e1" by blast
  then have "e1\<lparr>active := True\<rparr> = e0\<lparr>active := True\<rparr>"
    using assms by (auto simp: getElementById_clear_markers split: if_splits)
  then have "showView_body env v s = onViewActivated env v (e0\<lparr>active := True\<rparr>)
       (s\<lparr>dom := set_active (view_id v) True (clear_markers (dom s)), currentView := v\<rparr>)"
    using e1 by (simp add: showView_body_def Let_def)
  then show ?thesis
    by (simp add: showView_def try_catch_Inr onViewActivated_fst)
qed


lemma carries_after_hit:
  assumes "getElementById (view_id v) (dom s) = Some e0" "w \<in> set views"
  shows "carries_active w (snd (showView env v s)) = (w = v)"
  using assms onViewActivated_frame[of env v "e0\<lparr>active := True\<rparr>"
      "s\<lparr>dom := set_active (view_id v) True (clear_markers (dom s)), currentView := v\<rparr>"]
  by (auto simp: showView_hit carries_active_def marked_set_active marked_clear_markers
      getElementById_clear_markers view_id_inj)

lemma active_views_after_hit:
  assumes "getElementById (view_id v) (dom s) = Some e0" "v \<in> set views"
  shows "active_views (snd (showView env v s)) = [v]"
proof -
  have "filter (\<lambda>w. carries_active w (snd (showView env v s))) views = filter (\<lambda>w. w = v) views"
    using carries_after_hit[OF assms(1)] by (intro filter_cong) auto
  then show ?thesis
    using assms(2) by (simp add: active_views_def filter_eq_single distinct_views)
qed










subsection \<open>The cache and the fallback\<close>





lemma showView_hit_facts:
  assumes "getElementById (view_id v) (dom s) = Some e0"
  shows "currentView (snd (showView env v s)) = v \<and>
         pending (snd (showView env v s)) = pending s \<and>
         carries_active v (snd (showView env v s))"
  using assms onViewActivated_frame[of env v "e0\<lparr>active := True\<rparr>"
      "s\<lparr>dom := set_active (view_id v) True (clear_markers (dom s)), currentView := v\<rparr>"]
  by (simp add: showView_hit carries_active_def marked_set_active getElementById_clear_markers)

lemma load_falls_back:
  assumes fb: "createFallbackView env = createFallbackView_spec"
    and c: "cached s (view_id v) = None"
    and ff: "fetch_fails (fetch env (fetch_count s) (component_url (view_id v)))"
  shows "fst (loadComponent env (view_id v) s) = Inr (''placeholder '' @ view_id v) \<and>
         getElementById (view_id v) (dom (snd (loadComponent env (view_id v) s))) =
           Some (placeholder (view_id v)) \<and>
         pending (snd (loadComponent env (view_id v) s)) = pending s"
  using load_failed_fetch[OF c ff view_id_includes] fallback_spec[OF fb]
  by (simp add: getElementById_mount placeholder_def view_id_nonempty log_def)

text \<open>
  C3, with \<^verbatim>\<open>createFallbackView\<close> as modelled from the spec. When the fetch of a view's
  fragment fails (it is rejected, or the response is not \<^verbatim>\<open>ok\<close>), \<^verbatim>\<open>loadComponent\<close> still
  returns markup, and the document then holds the placeholder whose id is the view's
  element id. \<^verbatim>\<open>showView\<close> on that view then finds the element at once: \<^verbatim>\<open>currentView\<close>
  becomes the view, its element carries the marker, no reload is started, and for one of
  the four views it is the only one marked.
\<close>

theorem failed_fetch_falls_back:
  assumes fb: "createFallbackView env = createFallbackView_spec"
    and c: "cached s (view_id v) = None"
    and ff: "fetch_fails (fetch env (fetch_count s) (component_url (view_id v)))"
  shows "fst (loadComponent env (view_id v) s) = Inr (''placeholder '' @ view_id v) \<and>
         getElementById (view_id v) (dom (snd (loadComponent env (view_id v) s))) =
           Some (placeholder (view_id v)) \<and>
         currentView (snd (showView env v (snd (loadComponent env (view_id v) s)))) = v \<and>
         carries_active v (snd (showView env v (snd (loadComponent env (view_id v) s)))) \<and>
         pending (snd (showView env v (snd (loadComponent env (view_id v) s)))) = pending s \<and>
         (v \<in> set views \<longrightarrow>
            active_views (snd (showView env v (snd (loadComponent env (view_id v) s)))) = [v])"
proof -
  define s1 where "s1 = snd (loadComponent env (view_id v) s)"
  have l: "fst (loadComponent env (view_id v) s) = Inr (''placeholder '' @ view_id v)"
    and e: "getElementById (view_id v) (dom s1) = Some (placeholder (view_id v))"
    and p: "pending s1 = pending s"
    using load_falls_back[OF fb c ff] by (simp_all add: s1_def)
  have av: "active_views (snd (showView env v s1)) = [v]" if "v \<in> set views"
    using e that by (rule active_views_after_hit)
  show ?thesis
    using l e p av showView_hit_facts[OF e, of env] by (simp add: s1_def)
qed

theorem failed_fetch_falls_back_witness:
  "createFallbackView ex_env_down = createFallbackView_spec \<and>
   cached ex_doc (view_id ''review-answers'') = None \<and>
   fetch_fails (fetch ex_env_down (fetch_count ex_doc) (component_url (view_id ''review-answers''))) \<and>
   map el_id (dom (snd (loadComponent ex_env_down ''review-answers-view'' ex_doc))) =
     [''landing-view'', ''review-answers-view''] \<and>
   active_views (snd (showView ex_env_down ''review-answers''
      (snd (loadComponent ex_env_down (view_id ''review-answers'') ex_doc)))) = [''review-answers'']"
proof -
  have h1: "createFallbackView ex_env_down = createFallbackView_spec"
    by (simp add: ex_env_down_def ex_env_def)
  have h2: "cached ex_doc (view_id ''review-answers'') = None"
    by (simp add: cached_def ex_doc_def constructor_def)
  have h3: "fetch_fails (fetch ex_env_down (fetch_count ex_doc) (component_url (view_id ''review-answers'')))"
    by (simp add: ex_env_down_def fetch_fails_def)
  have h4: "''review-answers'' \<in> set views" by (simp add: views_def)
  have h5: "map el_id (dom (snd (loadComponent ex_env_down ''review-answers-view'' ex_doc))) =
     [''landing-view'', ''review-answers-view'']" by code_simp
  show ?thesis
    using h1 h2 h3 h4 h5 failed_fetch_falls_back[OF h1 h2 h3]
    by simp
qed

subsection \<open>The reload of a missing view\<close>







lemma activate_hit:
  assumes "getElementById (view_id v) (dom s) = Some e" "pending s = []"
  shows "activate env v s = (snd (showView env v s))\<lparr>pending := []\<rparr>"
  using assms onViewActivated_frame[of env v "e\<lparr>active := True\<rparr>"
      "s\<lparr>dom := set_active (view_id v) True (clear_markers (dom s)), currentView := v\<rparr>"]
  by (simp add: activate_def showView_hit settle_def)






lemma invoke_grows: "set (trace s) \<subseteq> set (trace (snd (invoke env c s)))"
  by (auto simp: invoke_def log_def)













subsection \<open>The dispatcher\<close>

lemma dispatch_landing: "onViewActivated env ''landing'' el s = (Inr (), s)"
  by (simp add: onViewActivated_def onViewActivated_body_def try_catch_def)

lemma dispatch_test:
  "calls (trace (snd (onViewActivated env ''test'' el s))) =
     calls (trace s) @
       (if method_of updateQuestionDisplay s = Callable then [UpdateQuestionDisplay] else [])"
  by (simp add: onViewActivated_def try_catch_calls onViewActivated_body_def method_of_def
      optional_call_def return_js_def throw_js_def invoke_calls split: option.splits slot.splits)

lemma dispatch_result:
  "calls (trace (snd (onViewActivated env ''result'' el s))) =
     calls (trace s) @ (if method_of calculateResults s = Callable then [CalculateResults] else [])"
  by (simp add: onViewActivated_def try_catch_calls onViewActivated_body_def method_of_def
      optional_call_def return_js_def throw_js_def invoke_calls split: option.splits slot.splits)

lemma dispatch_review_delegate:
  "method_of initializeReview s = Callable \<Longrightarrow>
   calls (trace (snd (onViewActivated env ''review-answers'' el s))) =
     calls (trace s) @ [InitializeReview (el_id el)]"
  by (simp add: onViewActivated_def try_catch_calls onViewActivated_body_def method_of_def
      invoke_calls split: option.splits)

lemma dispatch_review_own:
  assumes "method_of initializeReview s \<noteq> Callable"
  shows "onViewActivated env ''review-answers'' el s = initializeReviewManager env el s"
proof -
  have "onViewActivated_body env ''review-answers'' el s = initializeReviewManager env el s"
    using assms by (simp add: onViewActivated_body_def method_of_def split: option.splits)
  then show ?thesis
    by (simp add: onViewActivated_def try_catch_Inr initializeReviewManager_fst)
qed

text \<open>
  C5. On an activation the dispatcher calls the effect mapped to the view and nothing else:
  for \<^verbatim>\<open>landing\<close> nothing at all; for \<^verbatim>\<open>test\<close> the test manager's \<^verbatim>\<open>updateQuestionDisplay\<close>
  and for \<^verbatim>\<open>result\<close> its \<^verbatim>\<open>calculateResults\<close>, once, when the manager has the method and
  no call otherwise; for \<^verbatim>\<open>review-answers\<close> the test manager's \<^verbatim>\<open>initializeReview\<close> on the
  element when that method is a function, and otherwise exactly one run of this class's
  own \<^verbatim>\<open>initializeReviewManager\<close> on the element.
\<close>

theorem onViewActivated_dispatch:
  "onViewActivated env ''landing'' el s = (Inr (), s) \<and>
   calls (trace (snd (onViewActivated env ''test'' el s))) =
     calls (trace s) @
       (if method_of updateQuestionDisplay s = Callable then [UpdateQuestionDisplay] else []) \<and>
   calls (trace (snd (onViewActivated env ''result'' el s))) =
     calls (trace s) @
       (if method_of calculateResults s = Callable then [CalculateResults] else []) \<and>
   (method_of initializeReview s = Callable \<longrightarrow>
      calls (trace (snd (onViewActivated env ''review-answers'' el s))) =
        calls (trace s) @ [InitializeReview (el_id el)]) \<and>
   (method_of initializeReview s \<noteq> Callable \<longrightarrow>
      onViewActivated env ''review-answers'' el s = initializeReviewManager env el s)"
  using dispatch_landing dispatch_test dispatch_result dispatch_review_delegate
    dispatch_review_own
  by blast

theorem onViewActivated_dispatch_witness:
  "method_of initializeReview (ex_doc\<lparr>testManager := Some ex_tm\<rparr>) = Callable \<and>
   calls (trace (snd (onViewActivated ex_env ''review-answers''
      (plain_element ''review-answers-view'' True) (ex_doc\<lparr>testManager := Some ex_tm\<rparr>)))) =
     [InitializeReview ''review-answers-view''] \<and>
   method_of initializeReview ex_doc \<noteq> Callable \<and>
   onViewActivated ex_env ''review-answers'' (plain_element ''review-answers-view'' True) ex_doc =
     initializeReviewManager ex_env (plain_element ''review-answers-view'' True) ex_doc"
  using onViewActivated_dispatch[where env = ex_env
          and el = "plain_element ''review-answers-view'' True"
          and s = "ex_doc\<lparr>testManager := Some ex_tm\<rparr>"]
        onViewActivated_dispatch[where env = ex_env
          and el = "plain_element ''review-answers-view'' True" and s = ex_doc]
  by (simp add: method_of_def ex_doc_def ex_tm_def constructor_def plain_element_def)

subsection \<open>The review manager\<close>




subsection \<open>The sidebar listener\<close>

lemma indexOf_nth: "distinct ys \<Longrightarrow> k < length ys \<Longrightarrow> indexOf ys (ys ! k) = int k"
proof (induction ys arbitrary: k)
  case Nil
  then show ?case by simp
next
  case (Cons y ys)
  show ?case
  proof (cases k)
    case 0
    then show ?thesis by simp
  next
    case (Suc j)
    with Cons.prems have j: "j < length ys" "distinct ys" "ys ! j \<noteq> y" by auto
    with Cons.IH[of j] have "indexOf ys (ys ! j) = int j" by simp
    with Suc j show ?thesis by (simp add: Let_def)
  qed
qed

lemma click_outside:
  "closest_li path = None \<Longrightarrow> sidebar_click env children path s = (Inr (), s)"
  by (simp add: sidebar_click_def)

lemma click_item:
  assumes "closest_li path = Some btn" "distinct children" "k < length children"
    "children ! k = nid btn" "stateManager s" "reviewManager s"
    "\<not> throws env (SetReviewCurrentQuestion (int k))"
    "\<not> throws env (LoadReviewQuestion (int k))" "\<not> throws env CloseSidebar"
  shows "sidebar_click env children path s =
     (Inr (), log (Call CloseSidebar) (log (Call (LoadReviewQuestion (int k)))
                (log (Call (SetReviewCurrentQuestion (int k))) s)))"
proof -
  have "indexOf children (nid btn) = int k"
    using assms indexOf_nth[of children k] by simp
  then show ?thesis
    using assms
    by (simp add: sidebar_click_def isNaN_def seq_js_def bind_js_def invoke_def log_def Let_def)
qed

text \<open>
  C6, as the code has it. A click whose nearest enclosing \<^verbatim>\<open>li\<close> (the target or an ancestor)
  is the list's child at position \<open>k\<close> calls \<^verbatim>\<open>setReviewCurrentQuestion(k)\<close>, then
  \<^verbatim>\<open>loadReviewQuestion(k)\<close> and \<^verbatim>\<open>closeSidebar()\<close> on the review manager, in this order and
  nothing else, when the state manager and the review manager exist and none of the calls
  throws. A click with no enclosing \<^verbatim>\<open>li\<close> does nothing.
\<close>

theorem sidebar_click_delegation:
  "(closest_li path = None \<longrightarrow> sidebar_click env children path s = (Inr (), s)) \<and>
   (closest_li path = Some btn \<and> distinct children \<and> k < length children \<and>
    children ! k = nid btn \<and> stateManager s \<and> reviewManager s \<and>
    \<not> throws env (SetReviewCurrentQuestion (int k)) \<and>
    \<not> throws env (LoadReviewQuestion (int k)) \<and> \<not> throws env CloseSidebar \<longrightarrow>
    sidebar_click env children path s =
      (Inr (), log (Call CloseSidebar) (log (Call (LoadReviewQuestion (int k)))
                 (log (Call (SetReviewCurrentQuestion (int k))) s))))"
  using click_outside click_item by blast

theorem sidebar_click_delegation_witness:
  "closest_li [\<lparr>nid = 1, tag = ''ul''\<rparr>] = None \<and>
   sidebar_click ex_env [10, 11] [\<lparr>nid = 1, tag = ''ul''\<rparr>] (ex_doc\<lparr>reviewManager := True\<rparr>) =
     (Inr (), ex_doc\<lparr>reviewManager := True\<rparr>) \<and>
   closest_li ex_path_item = Some \<lparr>nid = 11, tag = ''li''\<rparr> \<and>
   trace (snd (sidebar_click ex_env [10, 11] ex_path_item (ex_doc\<lparr>reviewManager := True\<rparr>))) =
     [Call (SetReviewCurrentQuestion 1), Call (LoadReviewQuestion 1), Call CloseSidebar]"
  using sidebar_click_delegation[where env = ex_env and children = "[10, 11]"
      and path = "[\<lparr>nid = 1, tag = ''ul''\<rparr>]" and s = "ex_doc\<lparr>reviewManager := True\<rparr>"]
    sidebar_click_delegation[where env = ex_env and children = "[10, 11]"
      and path = ex_path_item and k = 1 and btn = "\<lparr>nid = 11, tag = ''li''\<rparr>"
      and s = "ex_doc\<lparr>reviewManager := True\<rparr>"]
  by (simp add: ex_path_item_def closest_li_def ex_env_def ex_doc_def constructor_def log_def)

text \<open>
  The claim fails for a click inside the item at position 1 whose nearest \<^verbatim>\<open>li\<close> is nested
  in that item: the calls are made, with \<open>- 1\<close>.
\<close>

theorem sidebar_click_nested_counterexample:
  "[10, 11] ! 1 = nid (ex_path_nested ! 3) \<and>
   trace (snd (sidebar_click ex_env [10, 11] ex_path_nested (ex_doc\<lparr>reviewManager := True\<rparr>))) =
     [Call (SetReviewCurrentQuestion (- 1)), Call (LoadReviewQuestion (- 1)), Call CloseSidebar]"
  by (simp add: ex_path_nested_def sidebar_click_def closest_li_def isNaN_def seq_js_def
      bind_js_def invoke_def log_def ex_env_def ex_doc_def constructor_def Let_def)

subsection \<open>Startup and the errors that leave a method\<close>

















end
